theory Spec2Isabelle
  imports Main "HOL-Library.Sublist"
begin

text \<open>
  A model of \<^verbatim>\<open>index.js\<close>, the whole program of the DAV MCP server: the startup
  script that resolves the provider and registers the tools, and the six tool handlers.
  The second copy of the file in the repository differs from it only in the names the
  tools are registered under (they carry the provider's name), in their descriptions
  and in the labels of the log lines; the handlers' bodies are the same.
\<close>

section \<open>JavaScript strings\<close>

text \<open>
  A JavaScript string is modelled as a \<^typ>\<open>string\<close>, one \<^typ>\<open>char\<close> per
  code unit. The program only ever inspects the separator \<open>/\<close> and the ASCII letters
  of the two provider names, so nothing depends on how code units beyond ASCII are
  represented.
\<close>

definition slash :: char where
  "slash = CHR ''/''"

definition endsWith_slash :: "string \<Rightarrow> bool" where
  \<comment> \<open>\<open>s.endsWith('/')\<close>\<close>
  "endsWith_slash s = (case rev s of [] \<Rightarrow> False | c # _ \<Rightarrow> c = slash)"

definition startsWith_slash :: "string \<Rightarrow> bool" where
  \<comment> \<open>\<open>s.startsWith('/')\<close>\<close>
  "startsWith_slash s = (case s of [] \<Rightarrow> False | c # _ \<Rightarrow> c = slash)"

definition slice_0_minus1 :: "string \<Rightarrow> string" where
  \<comment> \<open>\<open>s.slice(0, -1)\<close>: everything but the last code unit\<close>
  "slice_0_minus1 s = butlast s"

definition substring_1 :: "string \<Rightarrow> string" where
  \<comment> \<open>\<open>s.substring(1)\<close>: everything but the first code unit\<close>
  "substring_1 s = drop 1 s"

definition lower_char :: "char \<Rightarrow> char" where
  "lower_char c =
     (let n = (of_char c :: nat)
      in if 65 \<le> n \<and> n \<le> 90 then char_of (n + 32) else c)"

definition toLowerCase :: "string \<Rightarrow> string" where
  \<comment> \<open>\<open>String.prototype.toLowerCase\<close> on the ASCII letters; other code units are
      left alone. Beyond ASCII the only code point whose lower-case form is a single
      ASCII letter is the Kelvin sign (to \<open>k\<close>), a letter neither provider name
      has, so the comparisons with the two provider names come out as in JavaScript.\<close>
  "toLowerCase s = map lower_char s"

section \<open>The target address of the file listing\<close>

text \<open>
  Lines 230 to 236 of \<^verbatim>\<open>index.js\<close>, the body of \<^verbatim>\<open>list_my_files_and_folders\<close>
  between the login and the fetch:
  \<^verbatim>\<open>
  let collectionUrl = webDavClient.serverUrl;
  if (path && path !== '/') {
    const base = collectionUrl.endsWith('/') ? collectionUrl.slice(0, -1) : collectionUrl;
    const relativePath = path.startsWith('/') ? path.substring(1) : path;
    collectionUrl = `${base}/${relativePath}`;
  }
  \<close>
  The optional argument \<open>path\<close> is \<open>None\<close> when the caller leaves it out.
\<close>

definition truthy :: "string option \<Rightarrow> bool" where
  \<comment> \<open>an optional string in a condition: \<open>undefined\<close> and \<open>""\<close> are falsy\<close>
  "truthy v = (case v of None \<Rightarrow> False | Some s \<Rightarrow> s \<noteq> [])"

definition collectionUrl_of :: "string \<Rightarrow> string option \<Rightarrow> string" where
  "collectionUrl_of serverUrl path =
     (if truthy path \<and> path \<noteq> Some [slash] then
        (let p = the path;
             base = (if endsWith_slash serverUrl then slice_0_minus1 serverUrl else serverUrl);
             relativePath = (if startsWith_slash p then substring_1 p else p)
         in base @ [slash] @ relativePath)
      else serverUrl)"

section \<open>Thrown values and result envelopes\<close>

text \<open>
  A thrown value as a \<open>catch\<close> block of the program sees it. The block evaluates
  \<open>JSON.stringify(error.message || error)\<close>. Reading \<open>message\<close> of \<open>undefined\<close> or
  of \<open>null\<close> throws a \<open>TypeError\<close>. Any other value has a message (empty when it
  has none or a falsy one), and serialising the value itself either throws or gives the
  text that goes into the template literal (\<open>undefined\<close> when \<open>JSON.stringify\<close>
  returns no string). Nothing restricts what the DAV client throws.
\<close>

datatype js_thrown =
    Undefined
  | Null
  | Value string "js_thrown + string"

definition message_of :: "js_thrown \<Rightarrow> string" where
  \<comment> \<open>the message of a thrown value that has one\<close>
  "message_of e = (case e of Value m _ \<Rightarrow> m | _ \<Rightarrow> [])"

definition TypeError_reading :: "string \<Rightarrow> string \<Rightarrow> js_thrown" where
  \<comment> \<open>what Node throws on \<open>undefined.name\<close> and on \<open>null.name\<close>; an \<open>Error\<close> has no
      enumerable property of its own, so it serialises to \<open>{}\<close>\<close>
  "TypeError_reading what name =
     Value (''Cannot read properties of '' @ what @ '' (reading '' @ [CHR 0x27] @ name
              @ [CHR 0x27] @ '')'')
       (Inr ''{}'')"

definition TypeError_undefined :: "string \<Rightarrow> js_thrown" where
  "TypeError_undefined name = TypeError_reading ''undefined'' name"

definition TypeError_null :: "string \<Rightarrow> js_thrown" where
  "TypeError_null name = TypeError_reading ''null'' name"

definition hex_digit :: "nat \<Rightarrow> char" where
  "hex_digit n = ''0123456789abcdef'' ! (n mod 16)"

definition quote_char :: "char \<Rightarrow> string" where
  \<comment> \<open>one code unit inside a JSON string literal (ECMAScript \<open>QuoteJSONString\<close>)\<close>
  "quote_char c =
     (let n = (of_char c :: nat)
      in if n = 8 then [CHR 0x5C, CHR ''b'']
         else if n = 9 then [CHR 0x5C, CHR ''t'']
         else if n = 10 then [CHR 0x5C, CHR ''n'']
         else if n = 12 then [CHR 0x5C, CHR ''f'']
         else if n = 13 then [CHR 0x5C, CHR ''r'']
         else if n = 34 then [CHR 0x5C, CHR 0x22]
         else if n = 92 then [CHR 0x5C, CHR 0x5C]
         else if n < 32 then [CHR 0x5C, CHR ''u'', CHR ''0'', CHR ''0'',
                              hex_digit (n div 16), hex_digit n]
         else [c])"

definition JSON_stringify_string :: "string \<Rightarrow> string" where
  \<comment> \<open>\<open>JSON.stringify(s)\<close> for a string \<open>s\<close>\<close>
  "JSON_stringify_string s = [CHR 0x22] @ concat (map quote_char s) @ [CHR 0x22]"

definition error_detail :: "js_thrown \<Rightarrow> js_thrown + string" where
  \<comment> \<open>\<open>JSON.stringify(error.message || error)\<close> inside a template literal: the text,
      or what evaluating it throws\<close>
  "error_detail error =
     (case error of
        Undefined \<Rightarrow> Inl (TypeError_undefined ''message'')
      | Null \<Rightarrow> Inl (TypeError_null ''message'')
      | Value m serialised \<Rightarrow>
          if m \<noteq> [] then Inr (JSON_stringify_string m) else serialised)"

text \<open>
  The envelope a handler returns: \<open>{ content: [{ type: "text", text }], isError? }\<close>.
  A success envelope has no \<open>isError\<close> property, which is \<open>None\<close>.
\<close>

record content_block =
  type :: string
  text' :: string

record envelope =
  content :: "content_block list"
  isError :: "bool option"

definition success_envelope :: "string \<Rightarrow> envelope" where
  "success_envelope t = \<lparr>content = [\<lparr>type = ''text'', text' = t\<rparr>], isError = None\<rparr>"

definition error_envelope :: "string \<Rightarrow> envelope" where
  "error_envelope t = \<lparr>content = [\<lparr>type = ''text'', text' = t\<rparr>], isError = Some True\<rparr>"

definition envelope_text :: "envelope \<Rightarrow> string" where
  "envelope_text e = concat (map text' (content e))"

section \<open>The DAV client\<close>

text \<open>
  The DAV client library is not part of the program. A client object carries the
  parameters it was constructed from and six asynchronous methods. What a method does
  is left open: it is any function from the state \<open>'w\<close> of the outside world to a
  new state and either a thrown error or a result. The records the library returns are
  passed through as they are; the program reads nothing of them but \<open>url\<close>.
\<close>

record 'x dav_object =
  url :: string
  rest :: 'x

record time_range =
  start :: "string option"
  end' :: "string option"

record 'x fetch_options =
  calendar :: "'x dav_object"
  timeRange :: "time_range option"

record credentials =
  username :: string
  password :: string

record client_params =
  serverUrl :: string
  credentials :: credentials
  authMethod :: string
  defaultAccountType :: string

record ('w, 'x) dav_client = client_params +
  login :: "'w \<Rightarrow> (js_thrown + unit) \<times> 'w"
  fetchCalendars :: "'w \<Rightarrow> (js_thrown + 'x dav_object list) \<times> 'w"
  fetchCalendarObjects :: "'x fetch_options \<Rightarrow> 'w \<Rightarrow> (js_thrown + 'x dav_object list) \<times> 'w"
  fetchAddressBooks :: "'w \<Rightarrow> (js_thrown + 'x dav_object list) \<times> 'w"
  fetchVCards :: "'x dav_object \<Rightarrow> 'w \<Rightarrow> (js_thrown + 'x dav_object list) \<times> 'w"
  fetchObjects :: "string \<Rightarrow> 'w \<Rightarrow> (js_thrown + 'x dav_object list) \<times> 'w"

text \<open>
  A run of a handler is observed through the calls it makes on the client, each with
  the error it threw if it threw one, and through what it writes to the error channel.
\<close>

datatype 'x call =
    Login
  | FetchCalendars
  | FetchCalendarObjects "'x fetch_options"
  | FetchAddressBooks
  | FetchVCards "'x dav_object"
  | FetchObjects string

datatype 'x event =
    Called "'x call" "js_thrown option"
  | ConsoleError string js_thrown

type_synonym ('w, 'x, 'a) async = "'w \<Rightarrow> (js_thrown + 'a) \<times> 'x event list \<times> 'w"

definition resolve :: "'a \<Rightarrow> ('w, 'x, 'a) async" where
  \<comment> \<open>\<open>return a\<close>\<close>
  "resolve a w = (Inr a, [], w)"

definition reject :: "js_thrown \<Rightarrow> ('w, 'x, 'a) async" where
  \<comment> \<open>\<open>throw e\<close>\<close>
  "reject e w = (Inl e, [], w)"

definition await :: "('w, 'x, 'a) async \<Rightarrow> ('a \<Rightarrow> ('w, 'x, 'b) async) \<Rightarrow> ('w, 'x, 'b) async" where
  \<comment> \<open>\<open>const a = await m; k(a)\<close>: a thrown error skips the rest\<close>
  "await m k w =
     (case m w of
        (Inl e, t, w1) \<Rightarrow> (Inl e, t, w1)
      | (Inr a, t, w1) \<Rightarrow> (case k a w1 of (r, t2, w2) \<Rightarrow> (r, t @ t2, w2)))"

definition try_catch :: "('w, 'x, 'a) async \<Rightarrow> (js_thrown \<Rightarrow> ('w, 'x, 'a) async) \<Rightarrow> ('w, 'x, 'a) async" where
  \<comment> \<open>\<open>try { m } catch (error) { h(error) }\<close>\<close>
  "try_catch m h w =
     (case m w of
        (Inl e, t, w1) \<Rightarrow> (case h e w1 of (r, t2, w2) \<Rightarrow> (r, t @ t2, w2))
      | (Inr a, t, w1) \<Rightarrow> (Inr a, t, w1))"

definition thrown :: "js_thrown + 'a \<Rightarrow> js_thrown option" where
  "thrown r = (case r of Inl e \<Rightarrow> Some e | Inr _ \<Rightarrow> None)"

definition invoke :: "'x call \<Rightarrow> ('w \<Rightarrow> (js_thrown + 'a) \<times> 'w) \<Rightarrow> ('w, 'x, 'a) async" where
  \<comment> \<open>a method call on the client, recorded with its outcome\<close>
  "invoke c method w = (case method w of (r, w1) \<Rightarrow> (r, [Called c (thrown r)], w1))"

definition settle :: "js_thrown + 'a \<Rightarrow> ('w, 'x, 'a) async" where
  \<comment> \<open>an expression that gives a value or throws, with no call on the client\<close>
  "settle r w = (r, [], w)"

definition console_error :: "string \<Rightarrow> js_thrown \<Rightarrow> ('w, 'x, unit) async" where
  \<comment> \<open>\<open>console.error(label, error)\<close>\<close>
  "console_error label error w = (Inr (), [ConsoleError label error], w)"

definition on_client ::
  "('w, 'x) dav_client option \<Rightarrow> string \<Rightarrow> (('w, 'x) dav_client \<Rightarrow> ('w, 'x, 'a) async) \<Rightarrow> ('w, 'x, 'a) async" where
  \<comment> \<open>\<open>client.name(...)\<close> on a variable that may be \<open>undefined\<close>: reading the method
      of \<open>undefined\<close> throws a \<open>TypeError\<close> before anything is called\<close>
  "on_client client name k =
     (case client of None \<Rightarrow> reject (TypeError_undefined name) | Some c \<Rightarrow> k c)"

section \<open>The tool handlers\<close>

text \<open>
  The six handlers of \<^verbatim>\<open>index.js\<close>, each a closure over one of the variables
  \<open>davClient\<close>, \<open>cardDavClient\<close> and \<open>webDavClient\<close>, which is \<open>None\<close> while
  the variable is \<open>undefined\<close>. The parameter \<open>stringify\<close> is
  \<open>JSON.stringify(\<dots>, null, 2)\<close> on what the client returned.
\<close>

definition get_my_calendars ::
  "('x dav_object list \<Rightarrow> string) \<Rightarrow> ('w, 'x) dav_client option \<Rightarrow> ('w, 'x, envelope) async" where
  "get_my_calendars stringify davClient =
     (case davClient of
        None \<Rightarrow> resolve (error_envelope ''CalDAV client not initialized for this provider.'')
      | Some c \<Rightarrow>
          try_catch
            (await (invoke Login (login c)) (\<lambda>_.
             await (invoke FetchCalendars (fetchCalendars c)) (\<lambda>calendars.
             resolve (success_envelope (stringify calendars)))))
            (\<lambda>error.
             await (console_error ''Error in get_my_calendars:'' error) (\<lambda>_.
             await (settle (error_detail error)) (\<lambda>detail.
             resolve (error_envelope (''Error listing calendars: '' @ detail))))))"

definition get_calendar_events ::
  "('x dav_object list \<Rightarrow> string) \<Rightarrow> ('w, 'x) dav_client option
     \<Rightarrow> string \<Rightarrow> string option \<Rightarrow> string option \<Rightarrow> ('w, 'x, envelope) async" where
  "get_calendar_events stringify davClient calendarUrl timeRangeStart timeRangeEnd =
     (case davClient of
        None \<Rightarrow> resolve (error_envelope ''CalDAV client not initialized for this provider.'')
      | Some c \<Rightarrow>
          try_catch
            (await (invoke Login (login c)) (\<lambda>_.
             await (invoke FetchCalendars (fetchCalendars c)) (\<lambda>calendars.
             case find (\<lambda>cal. url cal = calendarUrl) calendars of
               None \<Rightarrow>
                 resolve (error_envelope
                   (''Error: Calendar with URL '' @ calendarUrl @ '' not found.''))
             | Some cal \<Rightarrow>
                 (let fetchOptions0 = \<lparr>calendar = cal, timeRange = None\<rparr>;
                      fetchOptions =
                        (if truthy timeRangeStart \<and> truthy timeRangeEnd
                         then fetchOptions0
                                \<lparr>timeRange := Some \<lparr>start = timeRangeStart, end' = timeRangeEnd\<rparr>\<rparr>
                         else fetchOptions0)
                  in await (invoke (FetchCalendarObjects fetchOptions)
                              (fetchCalendarObjects c fetchOptions)) (\<lambda>calendarObjects.
                     resolve (success_envelope (stringify calendarObjects)))))))
            (\<lambda>error.
             await (console_error ''Error in get_calendar_events:'' error) (\<lambda>_.
             await (settle (error_detail error)) (\<lambda>detail.
             resolve (error_envelope (''Error fetching calendar objects: '' @ detail))))))"

definition get_my_contact_lists ::
  "('x dav_object list \<Rightarrow> string) \<Rightarrow> ('w, 'x) dav_client option \<Rightarrow> ('w, 'x, envelope) async" where
  "get_my_contact_lists stringify cardDavClient =
     (case cardDavClient of
        None \<Rightarrow> resolve (error_envelope ''CardDAV client not initialized for this provider.'')
      | Some c \<Rightarrow>
          try_catch
            (await (invoke Login (login c)) (\<lambda>_.
             await (invoke FetchAddressBooks (fetchAddressBooks c)) (\<lambda>addressBooks.
             resolve (success_envelope (stringify addressBooks)))))
            (\<lambda>error.
             await (console_error ''Error in get_my_contact_lists:'' error) (\<lambda>_.
             await (settle (error_detail error)) (\<lambda>detail.
             resolve (error_envelope (''Error listing address books: '' @ detail))))))"

definition get_contacts_from_list ::
  "('x dav_object list \<Rightarrow> string) \<Rightarrow> ('w, 'x) dav_client option
     \<Rightarrow> string \<Rightarrow> ('w, 'x, envelope) async" where
  "get_contacts_from_list stringify cardDavClient addressBookUrl =
     (case cardDavClient of
        None \<Rightarrow> resolve (error_envelope ''CardDAV client not initialized for this provider.'')
      | Some c \<Rightarrow>
          try_catch
            (await (invoke Login (login c)) (\<lambda>_.
             await (invoke FetchAddressBooks (fetchAddressBooks c)) (\<lambda>addressBooks.
             case find (\<lambda>ab. url ab = addressBookUrl) addressBooks of
               None \<Rightarrow>
                 resolve (error_envelope
                   (''Error: Address book with URL '' @ addressBookUrl @ '' not found.''))
             | Some addressBook \<Rightarrow>
                 await (invoke (FetchVCards addressBook) (fetchVCards c addressBook)) (\<lambda>vcards.
                 resolve (success_envelope (stringify vcards))))))
            (\<lambda>error.
             await (console_error ''Error in get_contacts_from_list:'' error) (\<lambda>_.
             await (settle (error_detail error)) (\<lambda>detail.
             resolve (error_envelope (''Error fetching vCards: '' @ detail))))))"

text \<open>
  The two file handlers have no test of \<open>webDavClient\<close> of their own: they are
  defined inside \<open>if (webDavClient) { \<dots> }\<close> and start with
  \<open>await webDavClient.login()\<close> inside the \<open>try\<close>.
\<close>

definition list_my_files_and_folders ::
  "('x dav_object list \<Rightarrow> string) \<Rightarrow> ('w, 'x) dav_client option
     \<Rightarrow> string option \<Rightarrow> ('w, 'x, envelope) async" where
  "list_my_files_and_folders stringify webDavClient path =
     try_catch
       (on_client webDavClient ''login'' (\<lambda>c.
        await (invoke Login (login c)) (\<lambda>_.
        let collectionUrl = collectionUrl_of (serverUrl c) path
        in await (invoke (FetchObjects collectionUrl) (fetchObjects c collectionUrl)) (\<lambda>objects.
           resolve (success_envelope (stringify objects))))))
       (\<lambda>error.
        await (console_error ''Error in list_my_files_and_folders:'' error) (\<lambda>_.
        await (settle (error_detail error)) (\<lambda>detail.
        resolve (error_envelope (''Error listing WebDAV collection: '' @ detail)))))"

definition get_file_or_folder_details ::
  "('x dav_object list \<Rightarrow> string) \<Rightarrow> ('w, 'x) dav_client option
     \<Rightarrow> string \<Rightarrow> ('w, 'x, envelope) async" where
  "get_file_or_folder_details stringify webDavClient fileUrl =
     try_catch
       (on_client webDavClient ''login'' (\<lambda>c.
        await (invoke Login (login c)) (\<lambda>_.
        await (invoke (FetchObjects fileUrl) (fetchObjects c fileUrl)) (\<lambda>objectProperties.
        resolve (success_envelope (stringify objectProperties))))))
       (\<lambda>error.
        await (console_error ''Error in get_file_or_folder_details:'' error) (\<lambda>_.
        await (settle (error_detail error)) (\<lambda>detail.
        resolve (error_envelope (''Error getting WebDAV file metadata: '' @ detail)))))"

section \<open>Startup\<close>

text \<open>
  The top level of \<^verbatim>\<open>index.js\<close> reads three environment variables, builds the
  clients of the selected provider, registers the tools and connects the transport.
  The state of the process keeps what the script has written to the error channel,
  the exit code once the process has ended, the script's variables, the calls of
  \<open>server.tool\<close> in order, and whether \<open>server.connect\<close> was reached. A client
  variable holds the parameters its client was constructed from.
\<close>

record env =
  DAV_PROVIDER :: "string option"
  DAV_USERNAME :: "string option"
  DAV_PASSWORD :: "string option"

record process =
  stderr :: "string list"
  exitCode :: "nat option"
  serverName :: "string option"
  calDavServerUrl :: "string option"
  cardDavServerUrl :: "string option"
  webDavServerUrl :: "string option"
  davClient :: "client_params option"
  cardDavClient :: "client_params option"
  webDavClient :: "client_params option"
  tools :: "string list"
  connected :: bool

definition initial :: process where
  "initial =
     \<lparr>stderr = [], exitCode = None, serverName = None,
      calDavServerUrl = None, cardDavServerUrl = None, webDavServerUrl = None,
      davClient = None, cardDavClient = None, webDavClient = None,
      tools = [], connected = False\<rparr>"

definition or_empty :: "string option \<Rightarrow> string" where
  \<comment> \<open>\<open>process.env.X || ""\<close>\<close>
  "or_empty v = (case v of None \<Rightarrow> [] | Some s \<Rightarrow> s)"

definition log_error :: "string \<Rightarrow> process \<Rightarrow> process" where
  \<comment> \<open>\<open>console.error(line)\<close>\<close>
  "log_error line p = p\<lparr>stderr := stderr p @ [line]\<rparr>"

definition exit_process :: "nat \<Rightarrow> process \<Rightarrow> process" where
  \<comment> \<open>\<open>process.exit(code)\<close>: nothing after it runs\<close>
  "exit_process code p = p\<lparr>exitCode := Some code\<rparr>"

definition uncaught :: "js_thrown \<Rightarrow> process \<Rightarrow> process" where
  \<comment> \<open>an exception nothing catches: Node reports it on the error channel and ends
      the process with exit code 1\<close>
  "uncaught e p = exit_process 1 (log_error (''Uncaught TypeError: '' @ message_of e) p)"

definition basic_client :: "string \<Rightarrow> string \<Rightarrow> string \<Rightarrow> string \<Rightarrow> client_params" where
  \<comment> \<open>the argument of \<open>new DAVClient({\<dots>})\<close>\<close>
  "basic_client address user secret accountType =
     \<lparr>serverUrl = address,
      credentials = \<lparr>username = user, password = secret\<rparr>,
      authMethod = ''Basic'',
      defaultAccountType = accountType\<rparr>"

definition server_tool :: "string \<Rightarrow> process \<Rightarrow> process" where
  \<comment> \<open>\<open>server.tool(name, schema, handler)\<close>\<close>
  "server_tool name p = p\<lparr>tools := tools p @ [name]\<rparr>"

definition register_tools :: "process \<Rightarrow> process" where
  \<comment> \<open>lines 82 to 289: four tools always, two more under \<open>if (webDavClient)\<close>, then
      \<open>server.connect(transport)\<close>\<close>
  "register_tools p =
     (let p1 = server_tool ''get_my_calendars'' p;
          p2 = server_tool ''get_calendar_events'' p1;
          p3 = server_tool ''get_my_contact_lists'' p2;
          p4 = server_tool ''get_contacts_from_list'' p3;
          p6 = (if webDavClient p4 \<noteq> None
                then server_tool ''get_file_or_folder_details''
                       (server_tool ''list_my_files_and_folders'' p4)
                else p4)
      in p6\<lparr>connected := True\<rparr>)"

definition main :: "env \<Rightarrow> process" where
  "main e =
     (case DAV_PROVIDER e of
        None \<Rightarrow> uncaught (TypeError_undefined ''toLowerCase'') initial
      | Some selector \<Rightarrow>
          (let provider = toLowerCase selector;
               user = or_empty (DAV_USERNAME e);
               secret = or_empty (DAV_PASSWORD e)
           in if user = [] \<or> secret = [] then
                exit_process 1
                  (log_error
                     ''Error: DAV_USERNAME and DAV_PASSWORD environment variables are required.''
                     initial)
              else
                (let p = initial\<lparr>serverName := Some (''DAV MCP ('' @ provider @ '')'')\<rparr>
                 in if provider = ''fastmail'' then
                      (let cal = ''https://caldav.fastmail.com/dav/principals/user/'' @ user @ ''/'';
                           card = ''https://carddav.fastmail.com/dav/principals/user/'' @ user @ ''/'';
                           web = ''https://webdav.fastmail.com/dav/principals/user/'' @ user @ ''/''
                       in register_tools
                            (p\<lparr>calDavServerUrl := Some cal,
                               cardDavServerUrl := Some card,
                               webDavServerUrl := Some web,
                               davClient := Some (basic_client cal user secret ''caldav''),
                               cardDavClient := Some (basic_client card user secret ''carddav''),
                               webDavClient := Some (basic_client web user secret ''webdav'')\<rparr>))
                    else if provider = ''icloud'' then
                      (let cal = ''https://caldav.icloud.com'';
                           card = ''https://contacts.icloud.com''
                       in register_tools
                            (p\<lparr>calDavServerUrl := Some cal,
                               cardDavServerUrl := Some card,
                               webDavServerUrl := None,
                               davClient := Some (basic_client cal user secret ''caldav''),
                               cardDavClient := Some (basic_client card user secret ''carddav'')\<rparr>))
                    else
                      exit_process 1
                        (log_error
                           (''Error: Unsupported DAV_PROVIDER '' @ [CHR 0x22] @ provider
                              @ [CHR 0x22] @ ''. Use '' @ [CHR 0x22] @ ''fastmail'' @ [CHR 0x22]
                              @ '' or '' @ [CHR 0x22] @ ''icloud'' @ [CHR 0x22] @ ''.'')
                           p))))"

section \<open>Tool calls\<close>

text \<open>
  A tool call names a tool and carries the arguments its input schema declares:
  required strings, and optional strings that are \<open>None\<close> when left out.
\<close>

datatype tool_call =
    Get_my_calendars
  | Get_calendar_events string "string option" "string option"
  | Get_my_contact_lists
  | Get_contacts_from_list string
  | List_my_files_and_folders "string option"
  | Get_file_or_folder_details string

fun tool_name :: "tool_call \<Rightarrow> string" where
  "tool_name Get_my_calendars = ''get_my_calendars''"
| "tool_name (Get_calendar_events _ _ _) = ''get_calendar_events''"
| "tool_name Get_my_contact_lists = ''get_my_contact_lists''"
| "tool_name (Get_contacts_from_list _) = ''get_contacts_from_list''"
| "tool_name (List_my_files_and_folders _) = ''list_my_files_and_folders''"
| "tool_name (Get_file_or_folder_details _) = ''get_file_or_folder_details''"

text \<open>
  Each handler runs on the client its variable holds. \<open>DAVClient\<close> is the library's
  constructor: it turns the parameters into the client object.
\<close>

fun handler ::
  "('x dav_object list \<Rightarrow> string) \<Rightarrow> (client_params \<Rightarrow> ('w, 'x) dav_client) \<Rightarrow> process
     \<Rightarrow> tool_call \<Rightarrow> ('w, 'x, envelope) async" where
  "handler stringify DAVClient p Get_my_calendars =
     get_my_calendars stringify (map_option DAVClient (davClient p))"
| "handler stringify DAVClient p (Get_calendar_events calendarUrl timeRangeStart timeRangeEnd) =
     get_calendar_events stringify (map_option DAVClient (davClient p))
       calendarUrl timeRangeStart timeRangeEnd"
| "handler stringify DAVClient p Get_my_contact_lists =
     get_my_contact_lists stringify (map_option DAVClient (cardDavClient p))"
| "handler stringify DAVClient p (Get_contacts_from_list addressBookUrl) =
     get_contacts_from_list stringify (map_option DAVClient (cardDavClient p)) addressBookUrl"
| "handler stringify DAVClient p (List_my_files_and_folders path) =
     list_my_files_and_folders stringify (map_option DAVClient (webDavClient p)) path"
| "handler stringify DAVClient p (Get_file_or_folder_details fileUrl) =
     get_file_or_folder_details stringify (map_option DAVClient (webDavClient p)) fileUrl"

definition call_tool ::
  "('x dav_object list \<Rightarrow> string) \<Rightarrow> (client_params \<Rightarrow> ('w, 'x) dav_client) \<Rightarrow> process
     \<Rightarrow> tool_call \<Rightarrow> 'w \<Rightarrow> ((js_thrown + envelope) \<times> 'x event list \<times> 'w) option" where
  \<comment> \<open>Modelled from the spec: the dispatcher of the MCP server library, which is not
      part of the program. A call reaches a handler only in a process that is running
      and connected, and only for a tool that was registered; otherwise no handler
      runs, which is \<open>None\<close>.\<close>
  "call_tool stringify DAVClient p c w =
     (if exitCode p = None \<and> connected p \<and> tool_name c \<in> set (tools p)
      then Some (handler stringify DAVClient p c w)
      else None)"

section \<open>Notions the claims are stated in\<close>

definition calls :: "(js_thrown + 'a) \<times> 'x event list \<times> 'w \<Rightarrow> 'x event list" where
  \<comment> \<open>what a run did, in order\<close>
  "calls r = fst (snd r)"

definition faulted :: "'x event list \<Rightarrow> bool" where
  \<comment> \<open>some call on the client threw\<close>
  "faulted t = list_ex (\<lambda>ev. case ev of Called _ (Some _) \<Rightarrow> True | _ \<Rightarrow> False) t"

definition readable :: "js_thrown \<Rightarrow> bool" where
  \<comment> \<open>the catch block can turn the thrown value into a text\<close>
  "readable e = (case error_detail e of Inl _ \<Rightarrow> False | Inr _ \<Rightarrow> True)"

definition readable_faults :: "'x event list \<Rightarrow> bool" where
  \<comment> \<open>whatever the client threw was readable\<close>
  "readable_faults t =
     list_all (\<lambda>ev. case ev of Called _ (Some e) \<Rightarrow> readable e | _ \<Rightarrow> True) t"

definition answers_with_envelope :: "(js_thrown + envelope) \<times> 'x event list \<times> 'w \<Rightarrow> bool" where
  \<comment> \<open>the run returned an envelope of one text block, an error envelope with a text
      that is not empty when a call on the client threw\<close>
  "answers_with_envelope r =
     (case r of
        (Inl _, _, _) \<Rightarrow> False
      | (Inr e, t, _) \<Rightarrow>
          length (content e) = 1 \<and> list_all (\<lambda>b. type b = ''text'') (content e)
            \<and> isError e \<noteq> Some False
            \<and> (if faulted t then isError e = Some True \<and> envelope_text e \<noteq> [] else True))"

definition no_client_call :: "'x event list \<Rightarrow> bool" where
  \<comment> \<open>no authenticate or fetch call was made\<close>
  "no_client_call t = list_all (\<lambda>ev. case ev of Called _ _ \<Rightarrow> False | ConsoleError _ _ \<Rightarrow> True) t"

definition states_not_initialized :: "(js_thrown + envelope) \<times> 'x event list \<times> 'w \<Rightarrow> bool" where
  \<comment> \<open>the run returned before any call on a client, with an error envelope saying
      that the client is not initialized for this provider\<close>
  "states_not_initialized r =
     (case r of
        (Inr e, t, _) \<Rightarrow>
          no_client_call t \<and> isError e = Some True
            \<and> suffix '' client not initialized for this provider.'' (envelope_text e)
      | (Inl _, _, _) \<Rightarrow> False)"




text \<open>
  Two identifiers differ only in letter case when they have the same length and, place
  by place, the same character or the upper-case and lower-case form of one ASCII letter.
\<close>

definition differ_case :: "char \<Rightarrow> char \<Rightarrow> bool" where
  "differ_case c d =
     (let m = (of_char c :: nat); n = (of_char d :: nat)
      in c = d \<or> (65 \<le> m \<and> m \<le> 90 \<and> n = m + 32) \<or> (65 \<le> n \<and> n \<le> 90 \<and> m = n + 32))"

definition differ_only_in_case :: "string \<Rightarrow> string \<Rightarrow> bool" where
  "differ_only_in_case s t = list_all2 differ_case s t"

definition range_when_both :: "string option \<Rightarrow> string option \<Rightarrow> time_range option" where
  \<comment> \<open>the range made of both bounds when both are supplied, and no range otherwise\<close>
  "range_when_both ts te =
     (if ts \<noteq> None \<and> te \<noteq> None then Some \<lparr>start = ts, end' = te\<rparr> else None)"

definition unsupported_selector :: "string option \<Rightarrow> bool" where
  \<comment> \<open>the provider selector is unset, or names neither provider\<close>
  "unsupported_selector v =
     (case v of
        None \<Rightarrow> True
      | Some s \<Rightarrow> toLowerCase s \<noteq> ''fastmail'' \<and> toLowerCase s \<noteq> ''icloud'')"

section \<open>Sample clients and environments\<close>

text \<open>
  A client whose answers are fixed in advance; its world is the number of calls made
  so far.
\<close>

definition scripted_client ::
  "string \<Rightarrow> js_thrown + unit \<Rightarrow> js_thrown + unit dav_object list
     \<Rightarrow> js_thrown + unit dav_object list \<Rightarrow> (nat, unit) dav_client" where
  "scripted_client address loginResult containers items =
     \<lparr>serverUrl = address,
      credentials = \<lparr>username = ''user'', password = ''secret''\<rparr>,
      authMethod = ''Basic'',
      defaultAccountType = ''caldav'',
      login = (\<lambda>w. (loginResult, Suc w)),
      fetchCalendars = (\<lambda>w. (containers, Suc w)),
      fetchCalendarObjects = (\<lambda>_ w. (items, Suc w)),
      fetchAddressBooks = (\<lambda>w. (containers, Suc w)),
      fetchVCards = (\<lambda>_ w. (items, Suc w)),
      fetchObjects = (\<lambda>_ w. (items, Suc w))\<rparr>"

definition work_calendar :: "unit dav_object" where
  "work_calendar = \<lparr>url = ''https://dav.example/calendars/Work/'', rest = ()\<rparr>"

definition home_calendar :: "unit dav_object" where
  "home_calendar = \<lparr>url = ''https://dav.example/calendars/Home/'', rest = ()\<rparr>"

definition sample_client :: "(nat, unit) dav_client" where
  "sample_client =
     scripted_client ''https://host/root/'' (Inr ()) (Inr [work_calendar, home_calendar]) (Inr [])"

definition network_down :: js_thrown where
  "network_down = Value ''Network down'' (Inr ''{}'')"

definition rejecting_DAVClient :: "client_params \<Rightarrow> (nat, unit) dav_client" where
  \<comment> \<open>a client whose login rejects with \<open>undefined\<close>\<close>
  "rejecting_DAVClient ps = scripted_client (serverUrl ps) (Inl Undefined) (Inr []) (Inr [])"

definition slashless_client :: "(nat, unit) dav_client" where
  "slashless_client =
     scripted_client ''https://host/root'' (Inr ()) (Inr [work_calendar, home_calendar]) (Inr [])"

definition offline_DAVClient :: "client_params \<Rightarrow> (nat, unit) dav_client" where
  "offline_DAVClient ps = scripted_client (serverUrl ps) (Inl network_down) (Inr []) (Inr [])"

definition url_list :: "unit dav_object list \<Rightarrow> string" where
  \<comment> \<open>a stand-in for \<open>JSON.stringify\<close> on the sample records\<close>
  "url_list xs = ''['' @ concat (map (\<lambda>x. JSON_stringify_string (url x)) xs) @ '']''"

definition fastmail_env :: env where
  "fastmail_env =
     \<lparr>DAV_PROVIDER = Some ''fastmail'', DAV_USERNAME = Some ''me@example.org'',
      DAV_PASSWORD = Some ''app-password''\<rparr>"

definition icloud_env :: env where
  "icloud_env =
     \<lparr>DAV_PROVIDER = Some ''icloud'', DAV_USERNAME = Some ''me@example.org'',
      DAV_PASSWORD = Some ''app-password''\<rparr>"

definition yahoo_env :: env where
  "yahoo_env =
     \<lparr>DAV_PROVIDER = Some ''yahoo'', DAV_USERNAME = Some ''me@example.org'',
      DAV_PASSWORD = Some ''app-password''\<rparr>"

definition no_secret_env :: env where
  "no_secret_env =
     \<lparr>DAV_PROVIDER = Some ''icloud'', DAV_USERNAME = Some ''me@example.org'',
      DAV_PASSWORD = None\<rparr>"

section \<open>Facts about the combinators\<close>

lemmas async_defs = try_catch_def await_def invoke_def thrown_def resolve_def reject_def
  settle_def console_error_def on_client_def

lemmas envelope_defs = error_envelope_def success_envelope_def envelope_text_def

lemma thrown_simps: "thrown (Inl e) = Some e" "thrown (Inr a) = None"
  by (simp_all add: thrown_def)

lemmas run_defs = try_catch_def await_def invoke_def resolve_def reject_def
  settle_def console_error_def on_client_def thrown_simps

lemmas TypeError_defs = TypeError_undefined_def TypeError_null_def TypeError_reading_def

lemmas startup_defs = main_def Let_def uncaught_def exit_process_def log_error_def
  register_tools_def server_tool_def initial_def

lemmas sample_defs = sample_client_def scripted_client_def work_calendar_def home_calendar_def

section \<open>The target address\<close>



lemma collectionUrl_of_unchanged:
  "collectionUrl_of base None = base"
  "collectionUrl_of base (Some []) = base"
  "collectionUrl_of base (Some ''/'') = base"
  by (simp_all add: collectionUrl_of_def truthy_def slash_def)

lemma list_files_calls:
  assumes "login c w = (Inr u, w1)"
  shows "calls (list_my_files_and_folders stringify (Some c) path w) =
           Called Login None
           # Called (FetchObjects (collectionUrl_of (serverUrl c) path))
               (thrown (fst (fetchObjects c (collectionUrl_of (serverUrl c) path) w1)))
           # (case fst (fetchObjects c (collectionUrl_of (serverUrl c) path) w1) of
                Inl e \<Rightarrow> [ConsoleError ''Error in list_my_files_and_folders:'' e]
              | Inr _ \<Rightarrow> [])"
  using assms
  by (auto simp add: calls_def list_my_files_and_folders_def async_defs Let_def
        split: prod.splits sum.splits)




lemma list_files_fetches_only_base:
  assumes "Called (FetchObjects a) r
             \<in> set (calls (list_my_files_and_folders stringify client path w))"
  shows "\<exists>c. client = Some c \<and> a = collectionUrl_of (serverUrl c) path"
  using assms
  by (auto simp add: calls_def list_my_files_and_folders_def async_defs Let_def
        split: option.splits prod.splits sum.splits)

lemma list_files_run:
  assumes "login c w = (Inr u, w1)"
    and "fetchObjects c (collectionUrl_of (serverUrl c) path) w1 = (Inr objects, w2)"
  shows "list_my_files_and_folders stringify (Some c) path w =
           (Inr (success_envelope (stringify objects)),
            [Called Login None, Called (FetchObjects (collectionUrl_of (serverUrl c) path)) None],
            w2)"
  using assms by (simp add: list_my_files_and_folders_def async_defs Let_def)

text \<open>
  Claim C10. When the supplied path is exactly \<open>/\<close>, the file listing treats it like
  an absent path. After a successful login the handler fetches the objects at the base
  address unchanged and answers with what the fetch returned; whatever the client
  does, no fetch of the run is at any other address, so none is at the base with a
  separator and an empty segment after it; and the whole run is the run without a
  path.
\<close>

theorem root_path_like_absent:
  "collectionUrl_of base (Some ''/'') = base
   \<and> collectionUrl_of base (Some ''/'') = collectionUrl_of base None
   \<and> list_my_files_and_folders stringify client (Some ''/'')
       = list_my_files_and_folders stringify client None
   \<and> (login c w = (Inr u, w1) \<longrightarrow>
        calls (list_my_files_and_folders stringify (Some c) (Some ''/'') w) =
          Called Login None
          # Called (FetchObjects (serverUrl c)) (thrown (fst (fetchObjects c (serverUrl c) w1)))
          # (case fst (fetchObjects c (serverUrl c) w1) of
               Inl e \<Rightarrow> [ConsoleError ''Error in list_my_files_and_folders:'' e]
             | Inr _ \<Rightarrow> []))
   \<and> (login c w = (Inr u, w1) \<and> fetchObjects c (serverUrl c) w1 = (Inr objects, w2) \<longrightarrow>
        list_my_files_and_folders stringify (Some c) (Some ''/'') w =
          (Inr (success_envelope (stringify objects)),
           [Called Login None, Called (FetchObjects (serverUrl c)) None], w2))
   \<and> (\<forall>a r. Called (FetchObjects a) r
                \<in> set (calls (list_my_files_and_folders stringify client (Some ''/'') w'))
              \<longrightarrow> (\<exists>k. client = Some k \<and> a = serverUrl k))"
proof (intro conjI impI allI)
  show "collectionUrl_of base (Some ''/'') = base"
    by (simp add: collectionUrl_of_unchanged)
  show "collectionUrl_of base (Some ''/'') = collectionUrl_of base None"
    by (simp add: collectionUrl_of_unchanged)
  show "list_my_files_and_folders stringify client (Some ''/'')
          = list_my_files_and_folders stringify client None"
    by (simp add: list_my_files_and_folders_def collectionUrl_of_unchanged)
next
  assume "login c w = (Inr u, w1)"
  from list_files_calls [OF this, of stringify "Some ''/''"]
  show "calls (list_my_files_and_folders stringify (Some c) (Some ''/'') w) =
          Called Login None
          # Called (FetchObjects (serverUrl c)) (thrown (fst (fetchObjects c (serverUrl c) w1)))
          # (case fst (fetchObjects c (serverUrl c) w1) of
               Inl e \<Rightarrow> [ConsoleError ''Error in list_my_files_and_folders:'' e]
             | Inr _ \<Rightarrow> [])"
    by (simp only: collectionUrl_of_unchanged)
next
  assume h: "login c w = (Inr u, w1) \<and> fetchObjects c (serverUrl c) w1 = (Inr objects, w2)"
  then have "fetchObjects c (collectionUrl_of (serverUrl c) (Some ''/'')) w1 = (Inr objects, w2)"
    by (simp only: collectionUrl_of_unchanged)
  with h have "list_my_files_and_folders stringify (Some c) (Some ''/'') w =
          (Inr (success_envelope (stringify objects)),
           [Called Login None,
            Called (FetchObjects (collectionUrl_of (serverUrl c) (Some ''/''))) None], w2)"
    by (intro list_files_run [where u = u and ?w1.0 = w1]) blast+
  then show "list_my_files_and_folders stringify (Some c) (Some ''/'') w =
          (Inr (success_envelope (stringify objects)),
           [Called Login None, Called (FetchObjects (serverUrl c)) None], w2)"
    by (simp only: collectionUrl_of_unchanged)
next
  fix a r
  assume "Called (FetchObjects a) r
            \<in> set (calls (list_my_files_and_folders stringify client (Some ''/'') w'))"
  from list_files_fetches_only_base [OF this]
  show "\<exists>k. client = Some k \<and> a = serverUrl k"
    by (simp only: collectionUrl_of_unchanged)
qed

theorem root_path_like_absent_witness:
  "login slashless_client 0 = (Inr (), Suc 0)
   \<and> fetchObjects slashless_client (serverUrl slashless_client) (Suc 0) = (Inr [], Suc (Suc 0))
   \<and> list_my_files_and_folders url_list (Some slashless_client) (Some ''/'') 0
       = (Inr (success_envelope ''[]''),
          [Called Login None, Called (FetchObjects ''https://host/root'') None], Suc (Suc 0))
   \<and> Called (FetchObjects ''https://host/root'') None
       \<in> set (calls (list_my_files_and_folders url_list (Some slashless_client) (Some ''/'') 0))"
proof -
  have l: "login slashless_client 0 = (Inr (), Suc 0)"
    and f: "fetchObjects slashless_client (serverUrl slashless_client) (Suc 0)
              = (Inr [], Suc (Suc 0))"
    and b: "serverUrl slashless_client = ''https://host/root''"
    by (simp_all add: slashless_client_def scripted_client_def)
  note root = root_path_like_absent
    [where c = slashless_client and w = 0 and u = "()" and ?w1.0 = "Suc 0"
      and objects = "[]" and ?w2.0 = "Suc (Suc 0)" and stringify = url_list]
  note fetched = root [THEN conjunct2, THEN conjunct2, THEN conjunct2, THEN conjunct2,
      THEN conjunct1, THEN mp, OF conjI, OF l f]
  then have run: "list_my_files_and_folders url_list (Some slashless_client) (Some ''/'') 0
       = (Inr (success_envelope (url_list [])),
          [Called Login None, Called (FetchObjects (serverUrl slashless_client)) None],
          Suc (Suc 0))" .
  then have "Called (FetchObjects (serverUrl slashless_client)) None
       \<in> set (calls (list_my_files_and_folders url_list (Some slashless_client) (Some ''/'') 0))"
    by (simp add: calls_def)
  with run l f show ?thesis
    by (simp add: b url_list_def)
qed

section \<open>Startup and the tool catalog\<close>

lemma lower_char_differ_case:
  assumes "differ_case c d"
  shows "lower_char c = lower_char d"
proof -
  have up: "lower_char a = lower_char b"
    if "65 \<le> (of_char a :: nat)" "of_char a \<le> (90::nat)"
      and "of_char b = (of_char a :: nat) + 32" for a b :: char
  proof -
    have "lower_char a = char_of ((of_char a :: nat) + 32)"
      using that by (simp add: lower_char_def)
    also have "\<dots> = char_of (of_char b :: nat)"
      using that by simp
    also have "\<dots> = b"
      by simp
    also have "\<dots> = lower_char b"
      using that by (simp add: lower_char_def)
    finally show ?thesis .
  qed
  from assms consider "c = d"
    | "65 \<le> (of_char c :: nat) \<and> of_char c \<le> (90::nat) \<and> of_char d = (of_char c :: nat) + 32"
    | "65 \<le> (of_char d :: nat) \<and> of_char d \<le> (90::nat) \<and> of_char c = (of_char d :: nat) + 32"
    unfolding differ_case_def Let_def by blast
  then show ?thesis
  proof cases
    case 1
    then show ?thesis by simp
  next
    case 2
    then show ?thesis by (intro up) blast+
  next
    case 3
    then have "lower_char d = lower_char c" by (intro up) blast+
    then show ?thesis by simp
  qed
qed

lemma toLowerCase_differ_only_in_case:
  "differ_only_in_case s t \<Longrightarrow> toLowerCase s = toLowerCase t"
  unfolding differ_only_in_case_def toLowerCase_def
  by (induction s t rule: list_all2_induct) (simp_all add: lower_char_differ_case)

lemma differ_case_lower_char: "differ_case c (lower_char c)"
proof (cases "65 \<le> (of_char c :: nat) \<and> of_char c \<le> (90::nat)")
  case True
  then have "(of_char c :: nat) + 32 < 256" by simp
  then have "of_char (char_of ((of_char c :: nat) + 32)) = (of_char c :: nat) + 32"
    by (simp only: of_char_of mod_less)
  with True show ?thesis
    by (simp add: differ_case_def lower_char_def Let_def)
next
  case False
  then show ?thesis
    by (auto simp add: differ_case_def lower_char_def Let_def)
qed

lemma differ_only_in_case_toLowerCase: "differ_only_in_case s (toLowerCase s)"
  unfolding differ_only_in_case_def toLowerCase_def
  by (induction s) (simp_all add: differ_case_lower_char)

lemma provider_names_lower:
  "toLowerCase ''fastmail'' = ''fastmail''" "toLowerCase ''icloud'' = ''icloud''"
  by (simp_all add: toLowerCase_def lower_char_def)

lemma matches_provider_name:
  "toLowerCase s = ''fastmail'' \<longleftrightarrow> differ_only_in_case s ''fastmail''"
  "toLowerCase s = ''icloud'' \<longleftrightarrow> differ_only_in_case s ''icloud''"
proof -
  show "toLowerCase s = ''fastmail'' \<longleftrightarrow> differ_only_in_case s ''fastmail''"
  proof
    assume "toLowerCase s = ''fastmail''"
    with differ_only_in_case_toLowerCase [of s] show "differ_only_in_case s ''fastmail''"
      by simp
  next
    assume "differ_only_in_case s ''fastmail''"
    then have "toLowerCase s = toLowerCase ''fastmail''"
      by (rule toLowerCase_differ_only_in_case)
    then show "toLowerCase s = ''fastmail''"
      by (simp only: provider_names_lower)
  qed
  show "toLowerCase s = ''icloud'' \<longleftrightarrow> differ_only_in_case s ''icloud''"
  proof
    assume "toLowerCase s = ''icloud''"
    with differ_only_in_case_toLowerCase [of s] show "differ_only_in_case s ''icloud''"
      by simp
  next
    assume "differ_only_in_case s ''icloud''"
    then have "toLowerCase s = toLowerCase ''icloud''"
      by (rule toLowerCase_differ_only_in_case)
    then show "toLowerCase s = ''icloud''"
      by (simp only: provider_names_lower)
  qed
qed

lemma main_depends_on_lower:
  "toLowerCase s = toLowerCase t \<Longrightarrow>
     main (e\<lparr>DAV_PROVIDER := Some s\<rparr>) = main (e\<lparr>DAV_PROVIDER := Some t\<rparr>)"
  by (simp add: main_def)

lemma main_running_iff:
  "exitCode (main e) = None \<longleftrightarrow>
     (or_empty (DAV_USERNAME e) \<noteq> [] \<and> or_empty (DAV_PASSWORD e) \<noteq> [] \<and>
      (case DAV_PROVIDER e of
         None \<Rightarrow> False
       | Some s \<Rightarrow> toLowerCase s = ''fastmail'' \<or> toLowerCase s = ''icloud''))"
  by (simp add: startup_defs split: option.splits)

lemma main_fastmail:
  assumes "DAV_PROVIDER e = Some s" "toLowerCase s = ''fastmail''"
    "or_empty (DAV_USERNAME e) \<noteq> []" "or_empty (DAV_PASSWORD e) \<noteq> []"
  shows "tools (main e) =
           [''get_my_calendars'', ''get_calendar_events'', ''get_my_contact_lists'',
            ''get_contacts_from_list'', ''list_my_files_and_folders'',
            ''get_file_or_folder_details'']"
    and "webDavClient (main e) =
           Some (basic_client
                   (''https://webdav.fastmail.com/dav/principals/user/''
                      @ or_empty (DAV_USERNAME e) @ ''/'')
                   (or_empty (DAV_USERNAME e)) (or_empty (DAV_PASSWORD e)) ''webdav'')"
    and "connected (main e)" and "exitCode (main e) = None"
  using assms by (simp_all add: startup_defs)

lemma main_icloud:
  assumes "DAV_PROVIDER e = Some s" "toLowerCase s = ''icloud''"
    "or_empty (DAV_USERNAME e) \<noteq> []" "or_empty (DAV_PASSWORD e) \<noteq> []"
  shows "tools (main e) =
           [''get_my_calendars'', ''get_calendar_events'', ''get_my_contact_lists'',
            ''get_contacts_from_list'']"
    and "webDavClient (main e) = None" and "webDavServerUrl (main e) = None"
    and "connected (main e)" and "exitCode (main e) = None"
  using assms by (simp_all add: startup_defs)

lemma main_fatal:
  assumes "or_empty (DAV_USERNAME e) = [] \<or> or_empty (DAV_PASSWORD e) = []
             \<or> unsupported_selector (DAV_PROVIDER e)"
  shows "exitCode (main e) = Some 1" and "tools (main e) = []" and "\<not> connected (main e)"
    and "\<exists>d. stderr (main e) = [d] \<and> d \<noteq> []"
  using assms
  by (auto simp add: startup_defs unsupported_selector_def TypeError_defs message_of_def
        split: option.splits)

lemma file_tools_need_client:
  "''list_my_files_and_folders'' \<in> set (tools (main e))
     \<or> ''get_file_or_folder_details'' \<in> set (tools (main e))
   \<Longrightarrow> webDavClient (main e) \<noteq> None"
  by (auto simp add: startup_defs split: option.splits if_splits)

text \<open>
  Claim C5. With credentials present, the provider without the file protocol
  (\<open>icloud\<close>: no file client is built) has exactly the four calendar and contact
  tools in its catalog; the file-listing and file-detail tools were never passed to
  \<open>server.tool\<close>, and a call of either reaches no handler. For \<open>fastmail\<close> the file
  client is built and both file tools are registered.
\<close>

theorem file_tools_follow_provider:
  assumes "or_empty (DAV_USERNAME e) \<noteq> []" "or_empty (DAV_PASSWORD e) \<noteq> []"
    and "DAV_PROVIDER e = Some s"
  shows "(toLowerCase s = ''icloud'' \<longrightarrow>
            webDavClient (main e) = None
            \<and> tools (main e) = [''get_my_calendars'', ''get_calendar_events'',
                                ''get_my_contact_lists'', ''get_contacts_from_list'']
            \<and> ''list_my_files_and_folders'' \<notin> set (tools (main e))
            \<and> ''get_file_or_folder_details'' \<notin> set (tools (main e))
            \<and> call_tool stringify DAVClient (main e) (List_my_files_and_folders path) w = None
            \<and> call_tool stringify DAVClient (main e) (Get_file_or_folder_details fileUrl) w = None)
         \<and> (toLowerCase s = ''fastmail'' \<longrightarrow>
              webDavClient (main e) \<noteq> None
              \<and> ''list_my_files_and_folders'' \<in> set (tools (main e))
              \<and> ''get_file_or_folder_details'' \<in> set (tools (main e)))"
proof (intro conjI impI)
  assume i: "toLowerCase s = ''icloud''"
  note facts = main_icloud [OF assms(3) i assms(1,2)]
  show "webDavClient (main e) = None"
    by (rule facts(2))
  show "tools (main e) = [''get_my_calendars'', ''get_calendar_events'',
                          ''get_my_contact_lists'', ''get_contacts_from_list'']"
    by (rule facts(1))
  show "''list_my_files_and_folders'' \<notin> set (tools (main e))"
    by (simp add: facts(1))
  show "''get_file_or_folder_details'' \<notin> set (tools (main e))"
    by (simp add: facts(1))
  show "call_tool stringify DAVClient (main e) (List_my_files_and_folders path) w = None"
    by (simp add: call_tool_def facts(1))
  show "call_tool stringify DAVClient (main e) (Get_file_or_folder_details fileUrl) w = None"
    by (simp add: call_tool_def facts(1))
next
  assume f: "toLowerCase s = ''fastmail''"
  note facts = main_fastmail [OF assms(3) f assms(1,2)]
  show "webDavClient (main e) \<noteq> None"
    by (simp add: facts(2))
  show "''list_my_files_and_folders'' \<in> set (tools (main e))"
    by (simp add: facts(1))
  show "''get_file_or_folder_details'' \<in> set (tools (main e))"
    by (simp add: facts(1))
qed

theorem file_tools_follow_provider_witness:
  "tools (main icloud_env) = [''get_my_calendars'', ''get_calendar_events'',
                              ''get_my_contact_lists'', ''get_contacts_from_list'']
   \<and> call_tool url_list offline_DAVClient (main icloud_env) (List_my_files_and_folders None) 0
       = None
   \<and> ''list_my_files_and_folders'' \<in> set (tools (main fastmail_env))
   \<and> ''get_file_or_folder_details'' \<in> set (tools (main fastmail_env))"
  using file_tools_follow_provider [of icloud_env "''icloud''" url_list offline_DAVClient None 0]
    file_tools_follow_provider [of fastmail_env "''fastmail''"]
  by (simp add: icloud_env_def fastmail_env_def or_empty_def provider_names_lower)

text \<open>
  Claim C6. Provider resolution is a function of the identifier and the account, and
  two identifiers that differ only in letter case give the same process state: the
  same three base addresses, the same clients and so the same file-protocol
  capability. With credentials present, resolution succeeds exactly for the
  identifiers that match \<open>fastmail\<close> or \<open>icloud\<close> up to letter case.
\<close>

theorem provider_resolution_ignores_case:
  assumes "differ_only_in_case s t"
  shows "main (e\<lparr>DAV_PROVIDER := Some s\<rparr>) = main (e\<lparr>DAV_PROVIDER := Some t\<rparr>)
         \<and> (or_empty (DAV_USERNAME e) \<noteq> [] \<and> or_empty (DAV_PASSWORD e) \<noteq> [] \<longrightarrow>
              (exitCode (main (e\<lparr>DAV_PROVIDER := Some s\<rparr>)) = None)
                = (differ_only_in_case s ''fastmail'' \<or> differ_only_in_case s ''icloud''))"
proof
  from assms have "toLowerCase s = toLowerCase t"
    by (rule toLowerCase_differ_only_in_case)
  then show "main (e\<lparr>DAV_PROVIDER := Some s\<rparr>) = main (e\<lparr>DAV_PROVIDER := Some t\<rparr>)"
    by (rule main_depends_on_lower)
  show "or_empty (DAV_USERNAME e) \<noteq> [] \<and> or_empty (DAV_PASSWORD e) \<noteq> [] \<longrightarrow>
          (exitCode (main (e\<lparr>DAV_PROVIDER := Some s\<rparr>)) = None)
            = (differ_only_in_case s ''fastmail'' \<or> differ_only_in_case s ''icloud'')"
    by (simp add: main_running_iff matches_provider_name)
qed

theorem provider_resolution_ignores_case_witness:
  "differ_only_in_case ''ICLOUD'' ''icloud''
   \<and> main (icloud_env\<lparr>DAV_PROVIDER := Some ''ICLOUD''\<rparr>)
       = main (icloud_env\<lparr>DAV_PROVIDER := Some ''icloud''\<rparr>)
   \<and> exitCode (main (icloud_env\<lparr>DAV_PROVIDER := Some ''ICLOUD''\<rparr>)) = None"
proof -
  have d: "differ_only_in_case ''ICLOUD'' ''icloud''"
    by (simp add: differ_only_in_case_def differ_case_def)
  have c: "or_empty (DAV_USERNAME icloud_env) \<noteq> [] \<and> or_empty (DAV_PASSWORD icloud_env) \<noteq> []"
    by (simp add: icloud_env_def or_empty_def)
  from provider_resolution_ignores_case [OF d, of icloud_env] c d show ?thesis
    by blast
qed

text \<open>
  Claim C8. When the account name or the secret is empty or unset, or the provider
  selector is unset or names neither provider, the process ends with exit code 1 and
  one non-empty diagnostic on the error channel; no tool was registered, the
  transport was never connected, and no call of any tool reaches a handler.
\<close>

theorem startup_fails_before_serving:
  assumes "or_empty (DAV_USERNAME e) = [] \<or> or_empty (DAV_PASSWORD e) = []
             \<or> unsupported_selector (DAV_PROVIDER e)"
  shows "exitCode (main e) = Some 1
         \<and> (\<exists>d. stderr (main e) = [d] \<and> d \<noteq> [])
         \<and> tools (main e) = []
         \<and> \<not> connected (main e)
         \<and> call_tool stringify DAVClient (main e) c w = None"
  using main_fatal [OF assms] by (simp add: call_tool_def)

theorem startup_fails_before_serving_witness:
  "unsupported_selector (DAV_PROVIDER yahoo_env)
   \<and> exitCode (main yahoo_env) = Some 1
   \<and> tools (main yahoo_env) = []
   \<and> call_tool url_list offline_DAVClient (main yahoo_env) Get_my_calendars 0 = None
   \<and> or_empty (DAV_PASSWORD no_secret_env) = []
   \<and> exitCode (main no_secret_env) = Some 1
   \<and> tools (main no_secret_env) = []"
proof -
  have y: "unsupported_selector (DAV_PROVIDER yahoo_env)"
    by (simp add: yahoo_env_def unsupported_selector_def toLowerCase_def lower_char_def)
  have n: "or_empty (DAV_PASSWORD no_secret_env) = []"
    by (simp add: no_secret_env_def or_empty_def)
  from y have "or_empty (DAV_USERNAME yahoo_env) = [] \<or> or_empty (DAV_PASSWORD yahoo_env) = []
                 \<or> unsupported_selector (DAV_PROVIDER yahoo_env)"
    by simp
  note yahoo = startup_fails_before_serving
    [OF this, of url_list offline_DAVClient Get_my_calendars 0]
  from n have "or_empty (DAV_USERNAME no_secret_env) = [] \<or> or_empty (DAV_PASSWORD no_secret_env) = []
                 \<or> unsupported_selector (DAV_PROVIDER no_secret_env)"
    by simp
  note no_secret = startup_fails_before_serving
    [OF this, of url_list offline_DAVClient Get_my_calendars 0]
  from y n yahoo no_secret show ?thesis
    by blast
qed

section \<open>The handlers at their boundary\<close>

lemma readable_detail: "readable e \<Longrightarrow> \<exists>d. error_detail e = Inr d"
  by (cases "error_detail e") (simp_all add: readable_def)

lemma readable_TypeError: "readable (TypeError_undefined name)"
  by (simp add: readable_def error_detail_def TypeError_defs)

lemmas answers_defs = answers_with_envelope_def faulted_def readable_faults_def calls_def
  envelope_defs

lemma answers_get_my_calendars:
  "readable_faults (calls (get_my_calendars stringify client w))
     \<Longrightarrow> answers_with_envelope (get_my_calendars stringify client w)"
  by (auto simp add: answers_defs get_my_calendars_def run_defs
        split: option.splits prod.splits sum.splits dest!: readable_detail)

lemma answers_get_calendar_events:
  "readable_faults (calls (get_calendar_events stringify client calendarUrl ts te w))
     \<Longrightarrow> answers_with_envelope (get_calendar_events stringify client calendarUrl ts te w)"
  by (auto simp add: answers_defs get_calendar_events_def run_defs Let_def
        split: option.splits prod.splits sum.splits dest!: readable_detail)

lemma answers_get_my_contact_lists:
  "readable_faults (calls (get_my_contact_lists stringify client w))
     \<Longrightarrow> answers_with_envelope (get_my_contact_lists stringify client w)"
  by (auto simp add: answers_defs get_my_contact_lists_def run_defs
        split: option.splits prod.splits sum.splits dest!: readable_detail)

lemma answers_get_contacts_from_list:
  "readable_faults (calls (get_contacts_from_list stringify client addressBookUrl w))
     \<Longrightarrow> answers_with_envelope (get_contacts_from_list stringify client addressBookUrl w)"
  by (auto simp add: answers_defs get_contacts_from_list_def run_defs
        split: option.splits prod.splits sum.splits dest!: readable_detail)

lemma answers_list_my_files_and_folders:
  "readable_faults (calls (list_my_files_and_folders stringify client path w))
     \<Longrightarrow> answers_with_envelope (list_my_files_and_folders stringify client path w)"
  using readable_detail [OF readable_TypeError [of "''login''"]]
  by (auto simp add: answers_defs list_my_files_and_folders_def run_defs Let_def
        split: option.splits prod.splits sum.splits dest!: readable_detail)

lemma answers_get_file_or_folder_details:
  "readable_faults (calls (get_file_or_folder_details stringify client fileUrl w))
     \<Longrightarrow> answers_with_envelope (get_file_or_folder_details stringify client fileUrl w)"
  using readable_detail [OF readable_TypeError [of "''login''"]]
  by (auto simp add: answers_defs get_file_or_folder_details_def run_defs
        split: option.splits prod.splits sum.splits dest!: readable_detail)

text \<open>
  As long as the catch block can read what the client threw, every handler returns an
  envelope, and an error envelope with a text when a call threw.
\<close>

lemma handler_answers_readable_faults:
  "readable_faults (calls (handler stringify DAVClient p c w))
     \<Longrightarrow> answers_with_envelope (handler stringify DAVClient p c w)"
  by (cases c)
     (simp_all add: answers_get_my_calendars answers_get_calendar_events
        answers_get_my_contact_lists answers_get_contacts_from_list
        answers_list_my_files_and_folders answers_get_file_or_folder_details)

text \<open>
  A login that rejects with \<open>undefined\<close> or \<open>null\<close> is not readable: each of the six
  handlers then rejects, with the \<open>TypeError\<close> of its own catch block.
\<close>

lemma handlers_reject_unreadable_login:
  assumes "login c w = (Inl e, w1)" and "e = Undefined \<or> e = Null"
  shows "\<exists>t. fst (get_my_calendars stringify (Some c) w) = Inl t"
    and "\<exists>t. fst (get_calendar_events stringify (Some c) calendarUrl ts te w) = Inl t"
    and "\<exists>t. fst (get_my_contact_lists stringify (Some c) w) = Inl t"
    and "\<exists>t. fst (get_contacts_from_list stringify (Some c) addressBookUrl w) = Inl t"
    and "\<exists>t. fst (list_my_files_and_folders stringify (Some c) path w) = Inl t"
    and "\<exists>t. fst (get_file_or_folder_details stringify (Some c) fileUrl w) = Inl t"
  using assms
  by (auto simp add: get_my_calendars_def get_calendar_events_def get_my_contact_lists_def
        get_contacts_from_list_def list_my_files_and_folders_def
        get_file_or_folder_details_def async_defs error_detail_def)

text \<open>
  Claim C1. The claim does not hold of the code. Each handler's \<open>catch\<close> block
  evaluates \<open>error.message\<close> on whatever was thrown, with nothing around it. When the
  login of the DAV client rejects with \<open>undefined\<close>, the block logs the value and
  then throws a \<open>TypeError\<close> of its own: \<^verbatim>\<open>get_my_calendars\<close> returns no envelope,
  the error leaves the handler.
\<close>

theorem handler_rejects_on_undefined:
  "handler url_list rejecting_DAVClient (main icloud_env) Get_my_calendars 0
     = (Inl (TypeError_undefined ''message''),
        [Called Login (Some Undefined),
         ConsoleError ''Error in get_my_calendars:'' Undefined],
        Suc 0)"
  by (simp add: icloud_env_def startup_defs or_empty_def provider_names_lower
        get_my_calendars_def async_defs error_detail_def rejecting_DAVClient_def
        scripted_client_def)

text \<open>
  Claim C7, as amended. Each of the four calendar and contact handlers, when its
  client is absent, returns at once, before any call on a client, with an error
  envelope saying that the client is not initialized for this provider. The two file
  handlers carry no such test: they are registered only when the file client is
  present.
\<close>

theorem absent_client_answer:
  "get_my_calendars stringify None w
     = (Inr (error_envelope ''CalDAV client not initialized for this provider.''), [], w)
   \<and> get_calendar_events stringify None calendarUrl ts te w
       = (Inr (error_envelope ''CalDAV client not initialized for this provider.''), [], w)
   \<and> get_my_contact_lists stringify None w
       = (Inr (error_envelope ''CardDAV client not initialized for this provider.''), [], w)
   \<and> get_contacts_from_list stringify None addressBookUrl w
       = (Inr (error_envelope ''CardDAV client not initialized for this provider.''), [], w)
   \<and> states_not_initialized (get_my_calendars stringify None w)
   \<and> states_not_initialized (get_calendar_events stringify None calendarUrl ts te w)
   \<and> states_not_initialized (get_my_contact_lists stringify None w)
   \<and> states_not_initialized (get_contacts_from_list stringify None addressBookUrl w)
   \<and> (''list_my_files_and_folders'' \<in> set (tools (main e))
        \<or> ''get_file_or_folder_details'' \<in> set (tools (main e))
       \<longrightarrow> webDavClient (main e) \<noteq> None)"
proof -
  have registered: "''list_my_files_and_folders'' \<in> set (tools (main e))
        \<or> ''get_file_or_folder_details'' \<in> set (tools (main e))
       \<longrightarrow> webDavClient (main e) \<noteq> None"
    using file_tools_need_client [of e] by blast
  have answers:
    "get_my_calendars stringify None w
       = (Inr (error_envelope ''CalDAV client not initialized for this provider.''), [], w)"
    "get_calendar_events stringify None calendarUrl ts te w
       = (Inr (error_envelope ''CalDAV client not initialized for this provider.''), [], w)"
    "get_my_contact_lists stringify None w
       = (Inr (error_envelope ''CardDAV client not initialized for this provider.''), [], w)"
    "get_contacts_from_list stringify None addressBookUrl w
       = (Inr (error_envelope ''CardDAV client not initialized for this provider.''), [], w)"
    by (simp_all add: get_my_calendars_def get_calendar_events_def get_my_contact_lists_def
          get_contacts_from_list_def resolve_def)
  have said:
    "states_not_initialized
       (Inr (error_envelope ''CalDAV client not initialized for this provider.''), [], w)"
    "states_not_initialized
       (Inr (error_envelope ''CardDAV client not initialized for this provider.''), [], w)"
    by (simp_all add: states_not_initialized_def no_client_call_def error_envelope_def
          envelope_text_def suffix_def)
  from registered answers said show ?thesis
    by (simp only: simp_thms)
qed

theorem absent_client_answer_witness:
  "''list_my_files_and_folders'' \<in> set (tools (main fastmail_env))
   \<and> webDavClient (main fastmail_env) \<noteq> None
   \<and> states_not_initialized (get_my_calendars url_list None (0::nat))"
proof -
  have r: "''list_my_files_and_folders'' \<in> set (tools (main fastmail_env))"
    by (simp add: fastmail_env_def startup_defs or_empty_def provider_names_lower)
  from r absent_client_answer [of url_list "0::nat" _ _ _ _ fastmail_env] show ?thesis
    by blast
qed

text \<open>
  The claim as first stated speaks of every handler. The file-listing handler run on
  an absent client reads \<open>login\<close> of \<open>undefined\<close> inside its \<open>try\<close>; its answer
  is the handler's catch-all message, not a statement that the client is not
  initialized.
\<close>

theorem file_handler_absent_client_counterexample:
  "\<not> states_not_initialized (list_my_files_and_folders url_list None None (0::nat))"
proof -
  have run: "list_my_files_and_folders url_list None None (0::nat) =
          (Inr (error_envelope (''Error listing WebDAV collection: ''
                  @ JSON_stringify_string (message_of (TypeError_undefined ''login'')))),
           [ConsoleError ''Error in list_my_files_and_folders:'' (TypeError_undefined ''login'')],
           0)"
    by (simp add: list_my_files_and_folders_def async_defs error_detail_def TypeError_defs
          message_of_def)
  have "\<not> suffix '' client not initialized for this provider.''
            (''Error listing WebDAV collection: ''
               @ JSON_stringify_string (message_of (TypeError_undefined ''login'')))"
    by (simp add: TypeError_defs message_of_def JSON_stringify_string_def
          quote_char_def suffix_to_prefix)
  then show ?thesis
    by (simp add: run states_not_initialized_def error_envelope_def envelope_text_def)
qed

text \<open>The file-detail handler answers an absent client in the same way.\<close>

lemma file_details_handler_absent_client:
  "\<not> states_not_initialized (get_file_or_folder_details url_list None fileUrl (0::nat))"
proof -
  have run: "get_file_or_folder_details url_list None fileUrl (0::nat) =
          (Inr (error_envelope (''Error getting WebDAV file metadata: ''
                  @ JSON_stringify_string (message_of (TypeError_undefined ''login'')))),
           [ConsoleError ''Error in get_file_or_folder_details:'' (TypeError_undefined ''login'')],
           0)"
    by (simp add: get_file_or_folder_details_def async_defs error_detail_def TypeError_defs
          message_of_def)
  have "\<not> suffix '' client not initialized for this provider.''
            (''Error getting WebDAV file metadata: ''
               @ JSON_stringify_string (message_of (TypeError_undefined ''login'')))"
    by (simp add: TypeError_defs message_of_def JSON_stringify_string_def
          quote_char_def suffix_to_prefix)
  then show ?thesis
    by (simp add: run states_not_initialized_def error_envelope_def envelope_text_def)
qed

section \<open>Looking up the container and fetching from it\<close>

lemma truthy_supplied: "v \<noteq> Some [] \<Longrightarrow> truthy v = (v \<noteq> None)"
  by (cases v) (simp_all add: truthy_def)

lemma range_in_calls:
  assumes "timeRangeStart \<noteq> Some []" "timeRangeEnd \<noteq> Some []"
    and "Called (FetchCalendarObjects opts) r
           \<in> set (calls (get_calendar_events stringify client calendarUrl
                            timeRangeStart timeRangeEnd w))"
  shows "timeRange opts =
           (if timeRangeStart \<noteq> None \<and> timeRangeEnd \<noteq> None
            then Some \<lparr>start = timeRangeStart, end' = timeRangeEnd\<rparr> else None)"
  using assms
  by (auto simp add: calls_def get_calendar_events_def async_defs truthy_supplied Let_def
        split: option.splits prod.splits sum.splits if_splits)

lemma one_bound_is_none:
  "get_calendar_events stringify client calendarUrl (Some s) None
     = get_calendar_events stringify client calendarUrl None None"
  "get_calendar_events stringify client calendarUrl None (Some e)
     = get_calendar_events stringify client calendarUrl None None"
  by (simp_all add: get_calendar_events_def truthy_def Let_def cong: option.case_cong)

lemma calendar_found:
  assumes "login c w = (Inr u, w1)" "fetchCalendars c w1 = (Inr calendars, w2)"
    and "find (\<lambda>cal. url cal = calendarUrl) calendars = Some cal"
    and "opts = \<lparr>calendar = cal,
                  timeRange = (if truthy ts \<and> truthy te
                               then Some \<lparr>start = ts, end' = te\<rparr> else None)\<rparr>"
  shows "calls (get_calendar_events stringify (Some c) calendarUrl ts te w) =
           Called Login None # Called FetchCalendars None
           # Called (FetchCalendarObjects opts) (thrown (fst (fetchCalendarObjects c opts w2)))
           # (case fst (fetchCalendarObjects c opts w2) of
                Inl e \<Rightarrow> [ConsoleError ''Error in get_calendar_events:'' e]
              | Inr _ \<Rightarrow> [])"
  using assms
  by (auto simp add: calls_def get_calendar_events_def async_defs Let_def
        split: option.splits prod.splits sum.splits)

lemma address_book_found:
  assumes "login c w = (Inr u, w1)" "fetchAddressBooks c w1 = (Inr addressBooks, w2)"
    and "find (\<lambda>ab. url ab = addressBookUrl) addressBooks = Some addressBook"
  shows "calls (get_contacts_from_list stringify (Some c) addressBookUrl w) =
           Called Login None # Called FetchAddressBooks None
           # Called (FetchVCards addressBook) (thrown (fst (fetchVCards c addressBook w2)))
           # (case fst (fetchVCards c addressBook w2) of
                Inl e \<Rightarrow> [ConsoleError ''Error in get_contacts_from_list:'' e]
              | Inr _ \<Rightarrow> [])"
  using assms
  by (auto simp add: calls_def get_contacts_from_list_def async_defs
        split: option.splits prod.splits sum.splits)

lemma calendar_not_found:
  assumes "login c w = (Inr u, w1)" "fetchCalendars c w1 = (Inr calendars, w2)"
    and "\<forall>cal\<in>set calendars. url cal \<noteq> calendarUrl"
  shows "get_calendar_events stringify (Some c) calendarUrl ts te w =
           (Inr (error_envelope (''Error: Calendar with URL '' @ calendarUrl @ '' not found.'')),
            [Called Login None, Called FetchCalendars None], w2)"
proof -
  have "find (\<lambda>cal. url cal = calendarUrl) calendars = None"
    using assms(3) by (simp add: find_None_iff)
  then show ?thesis
    using assms(1,2) by (simp add: get_calendar_events_def async_defs)
qed

lemma address_book_not_found:
  assumes "login c w = (Inr u, w1)" "fetchAddressBooks c w1 = (Inr addressBooks, w2)"
    and "\<forall>ab\<in>set addressBooks. url ab \<noteq> addressBookUrl"
  shows "get_contacts_from_list stringify (Some c) addressBookUrl w =
           (Inr (error_envelope
                   (''Error: Address book with URL '' @ addressBookUrl @ '' not found.'')),
            [Called Login None, Called FetchAddressBooks None], w2)"
proof -
  have "find (\<lambda>ab. url ab = addressBookUrl) addressBooks = None"
    using assms(3) by (simp add: find_None_iff)
  then show ?thesis
    using assms(1,2) by (simp add: get_contacts_from_list_def async_defs)
qed

lemma sublist_between: "sublist u (a @ u @ b)"
  unfolding sublist_def by blast

lemma find_exact:
  assumes "find (\<lambda>x. url x = u) xs = Some x"
  shows "url x = u" and "x \<in> set xs"
  using assms by (auto simp add: find_Some_iff)

lemma find_some_exact:
  assumes "x \<in> set xs" "url x = u"
  shows "\<exists>y. find (\<lambda>x. url x = u) xs = Some y"
proof (cases "find (\<lambda>x. url x = u) xs")
  case None
  with assms show ?thesis by (auto simp add: find_None_iff)
next
  case (Some y)
  then show ?thesis by blast
qed

text \<open>
  Claim C2. The input schema admits a bound only as an ISO 8601 datetime, so a
  supplied bound is never the empty string. Every event fetch of
  \<^verbatim>\<open>get_calendar_events\<close> then carries a time range exactly when both bounds are
  supplied, and that range holds both bounds; once the calendar is found the fetch is
  made with these options. A call with one bound only is the same run as a call with
  neither.
\<close>

theorem time_range_needs_both_bounds:
  assumes "timeRangeStart \<noteq> Some []" "timeRangeEnd \<noteq> Some []"
  shows "(\<forall>opts r.
            Called (FetchCalendarObjects opts) r
              \<in> set (calls (get_calendar_events stringify client calendarUrl
                               timeRangeStart timeRangeEnd w))
            \<longrightarrow> timeRange opts = range_when_both timeRangeStart timeRangeEnd)
         \<and> (login c w = (Inr u, w1) \<and> fetchCalendars c w1 = (Inr calendars, w2)
              \<and> find (\<lambda>cal. url cal = calendarUrl) calendars = Some cal
            \<longrightarrow> (\<exists>r. Called (FetchCalendarObjects
                               \<lparr>calendar = cal,
                                timeRange = range_when_both timeRangeStart timeRangeEnd\<rparr>) r
                       \<in> set (calls (get_calendar_events stringify (Some c) calendarUrl
                                        timeRangeStart timeRangeEnd w))))
         \<and> get_calendar_events stringify client calendarUrl (Some s) None
             = get_calendar_events stringify client calendarUrl None None
         \<and> get_calendar_events stringify client calendarUrl None (Some e)
             = get_calendar_events stringify client calendarUrl None None"
proof (intro conjI allI impI)
  fix opts r
  assume "Called (FetchCalendarObjects opts) r
            \<in> set (calls (get_calendar_events stringify client calendarUrl
                             timeRangeStart timeRangeEnd w))"
  with assms show "timeRange opts = range_when_both timeRangeStart timeRangeEnd"
    unfolding range_when_both_def by (rule range_in_calls)
next
  assume h: "login c w = (Inr u, w1) \<and> fetchCalendars c w1 = (Inr calendars, w2)
              \<and> find (\<lambda>cal. url cal = calendarUrl) calendars = Some cal"
  define opts where
    "opts = \<lparr>calendar = cal, timeRange = range_when_both timeRangeStart timeRangeEnd\<rparr>"
  have t: "truthy timeRangeStart = (timeRangeStart \<noteq> None)"
    "truthy timeRangeEnd = (timeRangeEnd \<noteq> None)"
    using assms by (simp_all add: truthy_supplied)
  have "calls (get_calendar_events stringify (Some c) calendarUrl timeRangeStart timeRangeEnd w)
          = Called Login None # Called FetchCalendars None
            # Called (FetchCalendarObjects opts) (thrown (fst (fetchCalendarObjects c opts w2)))
            # (case fst (fetchCalendarObjects c opts w2) of
                 Inl e \<Rightarrow> [ConsoleError ''Error in get_calendar_events:'' e]
               | Inr _ \<Rightarrow> [])"
    using h
    by (intro calendar_found [where u = u and ?w1.0 = w1 and calendars = calendars])
       (simp_all add: t opts_def range_when_both_def)
  then have "Called (FetchCalendarObjects opts) (thrown (fst (fetchCalendarObjects c opts w2)))
               \<in> set (calls (get_calendar_events stringify (Some c) calendarUrl
                                timeRangeStart timeRangeEnd w))"
    by simp
  then show "\<exists>r. Called (FetchCalendarObjects
                          \<lparr>calendar = cal,
                           timeRange = range_when_both timeRangeStart timeRangeEnd\<rparr>) r
                  \<in> set (calls (get_calendar_events stringify (Some c) calendarUrl
                                   timeRangeStart timeRangeEnd w))"
    unfolding opts_def by blast
qed (simp_all only: one_bound_is_none)

theorem time_range_needs_both_bounds_witness:
  "Called (FetchCalendarObjects
             \<lparr>calendar = work_calendar,
              timeRange = Some \<lparr>start = Some ''2025-01-01T00:00:00Z'',
                                 end' = Some ''2025-02-01T00:00:00Z''\<rparr>\<rparr>) None
     \<in> set (calls (get_calendar_events url_list (Some sample_client)
                      ''https://dav.example/calendars/Work/''
                      (Some ''2025-01-01T00:00:00Z'') (Some ''2025-02-01T00:00:00Z'') 0))
   \<and> timeRange \<lparr>calendar = work_calendar,
                 timeRange = Some \<lparr>start = Some ''2025-01-01T00:00:00Z'',
                                    end' = Some ''2025-02-01T00:00:00Z''\<rparr>\<rparr>
       = range_when_both (Some ''2025-01-01T00:00:00Z'') (Some ''2025-02-01T00:00:00Z'')
   \<and> get_calendar_events url_list (Some sample_client) ''https://dav.example/calendars/Work/''
        (Some ''2025-01-01T00:00:00Z'') None
       = get_calendar_events url_list (Some sample_client)
           ''https://dav.example/calendars/Work/'' None None"
proof -
  have a: "Some ''2025-01-01T00:00:00Z'' \<noteq> Some []" "Some ''2025-02-01T00:00:00Z'' \<noteq> Some []"
    by simp_all
  have run: "Called (FetchCalendarObjects
             \<lparr>calendar = work_calendar,
              timeRange = Some \<lparr>start = Some ''2025-01-01T00:00:00Z'',
                                 end' = Some ''2025-02-01T00:00:00Z''\<rparr>\<rparr>) None
     \<in> set (calls (get_calendar_events url_list (Some sample_client)
                      ''https://dav.example/calendars/Work/''
                      (Some ''2025-01-01T00:00:00Z'') (Some ''2025-02-01T00:00:00Z'') 0))"
    by (simp add: calls_def get_calendar_events_def async_defs sample_defs truthy_def)
  note both = time_range_needs_both_bounds [OF a, of url_list "Some sample_client"
      "''https://dav.example/calendars/Work/''" 0]
  from both run show ?thesis
    by blast
qed

text \<open>
  Claim C3. The supplied URL is compared with the URLs of the freshly fetched
  containers by equality of strings and nothing else. When no container has exactly
  that URL, \<^verbatim>\<open>get_calendar_events\<close> (and likewise \<^verbatim>\<open>get_contacts_from_list\<close>)
  returns an error envelope whose text contains the supplied URL, after the login and
  the listing and with no event (vCard) fetch. When some container has exactly that
  URL, the fetch is made on a container with that URL.
\<close>

theorem container_url_matched_exactly:
  "(login c w = (Inr u, w1) \<and> fetchCalendars c w1 = (Inr calendars, w2)
      \<and> (\<forall>cal\<in>set calendars. url cal \<noteq> calendarUrl)
    \<longrightarrow> get_calendar_events stringify (Some c) calendarUrl ts te w
          = (Inr (error_envelope
                    (''Error: Calendar with URL '' @ calendarUrl @ '' not found.'')),
             [Called Login None, Called FetchCalendars None], w2)
        \<and> sublist calendarUrl (''Error: Calendar with URL '' @ calendarUrl @ '' not found.''))
   \<and> (login c w = (Inr u, w1) \<and> fetchAddressBooks c w1 = (Inr addressBooks, w2)
        \<and> (\<forall>ab\<in>set addressBooks. url ab \<noteq> addressBookUrl)
      \<longrightarrow> get_contacts_from_list stringify (Some c) addressBookUrl w
            = (Inr (error_envelope
                      (''Error: Address book with URL '' @ addressBookUrl @ '' not found.'')),
               [Called Login None, Called FetchAddressBooks None], w2)
          \<and> sublist addressBookUrl
               (''Error: Address book with URL '' @ addressBookUrl @ '' not found.''))
   \<and> (login c w = (Inr u, w1) \<and> fetchCalendars c w1 = (Inr calendars, w2)
        \<and> (\<exists>cal\<in>set calendars. url cal = calendarUrl)
      \<longrightarrow> (\<exists>opts r. Called (FetchCalendarObjects opts) r
                        \<in> set (calls (get_calendar_events stringify (Some c) calendarUrl ts te w))
                      \<and> url (calendar opts) = calendarUrl \<and> calendar opts \<in> set calendars))
   \<and> (login c w = (Inr u, w1) \<and> fetchAddressBooks c w1 = (Inr addressBooks, w2)
        \<and> (\<exists>ab\<in>set addressBooks. url ab = addressBookUrl)
      \<longrightarrow> (\<exists>ab r. Called (FetchVCards ab) r
                      \<in> set (calls (get_contacts_from_list stringify (Some c) addressBookUrl w))
                    \<and> url ab = addressBookUrl \<and> ab \<in> set addressBooks))"
proof (intro conjI impI)
  assume "login c w = (Inr u, w1) \<and> fetchCalendars c w1 = (Inr calendars, w2)
            \<and> (\<forall>cal\<in>set calendars. url cal \<noteq> calendarUrl)"
  then show "get_calendar_events stringify (Some c) calendarUrl ts te w
          = (Inr (error_envelope
                    (''Error: Calendar with URL '' @ calendarUrl @ '' not found.'')),
             [Called Login None, Called FetchCalendars None], w2)"
    by (intro calendar_not_found) blast+
next
  show "sublist calendarUrl (''Error: Calendar with URL '' @ calendarUrl @ '' not found.'')"
    by (rule sublist_between)
next
  assume "login c w = (Inr u, w1) \<and> fetchAddressBooks c w1 = (Inr addressBooks, w2)
            \<and> (\<forall>ab\<in>set addressBooks. url ab \<noteq> addressBookUrl)"
  then show "get_contacts_from_list stringify (Some c) addressBookUrl w
            = (Inr (error_envelope
                      (''Error: Address book with URL '' @ addressBookUrl @ '' not found.'')),
               [Called Login None, Called FetchAddressBooks None], w2)"
    by (intro address_book_not_found) blast+
next
  show "sublist addressBookUrl
          (''Error: Address book with URL '' @ addressBookUrl @ '' not found.'')"
    by (rule sublist_between)
next
  assume h: "login c w = (Inr u, w1) \<and> fetchCalendars c w1 = (Inr calendars, w2)
               \<and> (\<exists>cal\<in>set calendars. url cal = calendarUrl)"
  then obtain cal where f: "find (\<lambda>x. url x = calendarUrl) calendars = Some cal"
    using find_some_exact [of _ calendars calendarUrl] by blast
  define opts where
    "opts = \<lparr>calendar = cal,
             timeRange = (if truthy ts \<and> truthy te
                          then Some \<lparr>start = ts, end' = te\<rparr> else None)\<rparr>"
  have "calls (get_calendar_events stringify (Some c) calendarUrl ts te w)
          = Called Login None # Called FetchCalendars None
            # Called (FetchCalendarObjects opts) (thrown (fst (fetchCalendarObjects c opts w2)))
            # (case fst (fetchCalendarObjects c opts w2) of
                 Inl e \<Rightarrow> [ConsoleError ''Error in get_calendar_events:'' e]
               | Inr _ \<Rightarrow> [])"
    using h f opts_def
    by (intro calendar_found [where u = u and ?w1.0 = w1 and calendars = calendars]) blast+
  then have "Called (FetchCalendarObjects opts) (thrown (fst (fetchCalendarObjects c opts w2)))
               \<in> set (calls (get_calendar_events stringify (Some c) calendarUrl ts te w))"
    by simp
  moreover have "url (calendar opts) = calendarUrl" "calendar opts \<in> set calendars"
    using find_exact [OF f] by (simp_all add: opts_def)
  ultimately show "\<exists>opts r. Called (FetchCalendarObjects opts) r
                        \<in> set (calls (get_calendar_events stringify (Some c) calendarUrl ts te w))
                      \<and> url (calendar opts) = calendarUrl \<and> calendar opts \<in> set calendars"
    by blast
next
  assume h: "login c w = (Inr u, w1) \<and> fetchAddressBooks c w1 = (Inr addressBooks, w2)
               \<and> (\<exists>ab\<in>set addressBooks. url ab = addressBookUrl)"
  then obtain ab where f: "find (\<lambda>x. url x = addressBookUrl) addressBooks = Some ab"
    using find_some_exact [of _ addressBooks addressBookUrl] by blast
  have "calls (get_contacts_from_list stringify (Some c) addressBookUrl w)
          = Called Login None # Called FetchAddressBooks None
            # Called (FetchVCards ab) (thrown (fst (fetchVCards c ab w2)))
            # (case fst (fetchVCards c ab w2) of
                 Inl e \<Rightarrow> [ConsoleError ''Error in get_contacts_from_list:'' e]
               | Inr _ \<Rightarrow> [])"
    using h f
    by (intro address_book_found [where u = u and ?w1.0 = w1 and addressBooks = addressBooks])
       blast+
  then have "Called (FetchVCards ab) (thrown (fst (fetchVCards c ab w2)))
               \<in> set (calls (get_contacts_from_list stringify (Some c) addressBookUrl w))"
    by simp
  with find_exact [OF f]
  show "\<exists>ab r. Called (FetchVCards ab) r
                  \<in> set (calls (get_contacts_from_list stringify (Some c) addressBookUrl w))
                \<and> url ab = addressBookUrl \<and> ab \<in> set addressBooks"
    by blast
qed

theorem container_url_matched_exactly_witness:
  "get_calendar_events url_list (Some sample_client) ''https://dav.example/calendars/Work''
       None None 0
     = (Inr (error_envelope
               ''Error: Calendar with URL https://dav.example/calendars/Work not found.''),
        [Called Login None, Called FetchCalendars None], Suc (Suc 0))
   \<and> get_contacts_from_list url_list (Some sample_client)
         ''https://dav.example/calendars/work/'' 0
       = (Inr (error_envelope
                 ''Error: Address book with URL https://dav.example/calendars/work/ not found.''),
          [Called Login None, Called FetchAddressBooks None], Suc (Suc 0))
   \<and> (\<exists>r. Called (FetchVCards work_calendar) r
              \<in> set (calls (get_contacts_from_list url_list (Some sample_client)
                               ''https://dav.example/calendars/Work/'' 0)))"
proof -
  have l: "login sample_client 0 = (Inr (), Suc 0)"
    and fc: "fetchCalendars sample_client (Suc 0)
               = (Inr [work_calendar, home_calendar], Suc (Suc 0))"
    and fa: "fetchAddressBooks sample_client (Suc 0)
               = (Inr [work_calendar, home_calendar], Suc (Suc 0))"
    by (simp_all add: sample_client_def scripted_client_def)
  have no_slash: "\<forall>cal\<in>set [work_calendar, home_calendar].
                    url cal \<noteq> ''https://dav.example/calendars/Work''"
    and no_case: "\<forall>ab\<in>set [work_calendar, home_calendar].
                    url ab \<noteq> ''https://dav.example/calendars/work/''"
    and exact: "\<exists>ab\<in>set [work_calendar, home_calendar].
                    url ab = ''https://dav.example/calendars/Work/''"
    by (simp_all add: work_calendar_def home_calendar_def)
  note missing = container_url_matched_exactly
    [where c = sample_client and w = 0 and u = "()" and ?w1.0 = "Suc 0"
      and calendars = "[work_calendar, home_calendar]"
      and addressBooks = "[work_calendar, home_calendar]" and ?w2.0 = "Suc (Suc 0)"
      and calendarUrl = "''https://dav.example/calendars/Work''"
      and addressBookUrl = "''https://dav.example/calendars/work/''"
      and stringify = url_list and ts = None and te = None]
  note present = container_url_matched_exactly
    [where c = sample_client and w = 0 and u = "()" and ?w1.0 = "Suc 0"
      and calendars = "[work_calendar, home_calendar]"
      and addressBooks = "[work_calendar, home_calendar]" and ?w2.0 = "Suc (Suc 0)"
      and calendarUrl = "''https://dav.example/calendars/Work/''"
      and addressBookUrl = "''https://dav.example/calendars/Work/''"
      and stringify = url_list and ts = None and te = None]
  from present l fa exact
  obtain ab r where
    found: "Called (FetchVCards ab) r
              \<in> set (calls (get_contacts_from_list url_list (Some sample_client)
                               ''https://dav.example/calendars/Work/'' 0))"
      "url ab = ''https://dav.example/calendars/Work/''"
      "ab \<in> set [work_calendar, home_calendar]"
    by blast
  from found(2,3) have "ab = work_calendar"
    by (auto simp add: work_calendar_def home_calendar_def)
  with found(1) missing l fc fa no_slash no_case show ?thesis
    by (simp only: append.simps) blast
qed

text \<open>
  Claim C9. When both bounds are supplied (non-empty, as the schema has them) and the
  calendar is found, the pair goes to the event fetch as it was given, whatever the
  two strings are: the handler compares them with nothing, so a range whose start is
  equal to or after its end is fetched like any other, and the answer is whatever the
  fetch returns or, through the catch block, what it throws.
\<close>

theorem time_range_forwarded_unvalidated:
  assumes "s \<noteq> []" "e \<noteq> []"
    and "login c w = (Inr u, w1)" "fetchCalendars c w1 = (Inr calendars, w2)"
    and "find (\<lambda>cal. url cal = calendarUrl) calendars = Some cal"
    and "fetchCalendarObjects c
           \<lparr>calendar = cal, timeRange = Some \<lparr>start = Some s, end' = Some e\<rparr>\<rparr> w2 = (r, w3)"
  shows "get_calendar_events stringify (Some c) calendarUrl (Some s) (Some e) w =
          (case r of
             Inr calendarObjects \<Rightarrow>
               (Inr (success_envelope (stringify calendarObjects)),
                [Called Login None, Called FetchCalendars None,
                 Called (FetchCalendarObjects
                           \<lparr>calendar = cal,
                            timeRange = Some \<lparr>start = Some s, end' = Some e\<rparr>\<rparr>) None],
                w3)
           | Inl error \<Rightarrow>
               (case error_detail error of
                  Inr detail \<Rightarrow>
                    Inr (error_envelope (''Error fetching calendar objects: '' @ detail))
                | Inl t \<Rightarrow> Inl t,
                [Called Login None, Called FetchCalendars None,
                 Called (FetchCalendarObjects
                           \<lparr>calendar = cal,
                            timeRange = Some \<lparr>start = Some s, end' = Some e\<rparr>\<rparr>) (Some error),
                 ConsoleError ''Error in get_calendar_events:'' error],
                w3))"
  using assms
  by (auto simp add: get_calendar_events_def async_defs Let_def truthy_def
        split: option.splits prod.splits sum.splits)

theorem time_range_forwarded_unvalidated_witness:
  "get_calendar_events url_list (Some sample_client) ''https://dav.example/calendars/Work/''
       (Some ''2025-12-31T00:00:00Z'') (Some ''2025-01-01T00:00:00Z'') 0
     = (Inr (success_envelope ''[]''),
        [Called Login None, Called FetchCalendars None,
         Called (FetchCalendarObjects
                   \<lparr>calendar = work_calendar,
                    timeRange = Some \<lparr>start = Some ''2025-12-31T00:00:00Z'',
                                       end' = Some ''2025-01-01T00:00:00Z''\<rparr>\<rparr>) None],
        Suc (Suc (Suc 0)))
   \<and> get_calendar_events url_list (Some sample_client) ''https://dav.example/calendars/Work/''
       (Some ''2025-06-01T00:00:00Z'') (Some ''2025-06-01T00:00:00Z'') 0
     = (Inr (success_envelope ''[]''),
        [Called Login None, Called FetchCalendars None,
         Called (FetchCalendarObjects
                   \<lparr>calendar = work_calendar,
                    timeRange = Some \<lparr>start = Some ''2025-06-01T00:00:00Z'',
                                       end' = Some ''2025-06-01T00:00:00Z''\<rparr>\<rparr>) None],
        Suc (Suc (Suc 0)))"
proof -
  have l: "login sample_client 0 = (Inr (), Suc 0)"
    and fc: "fetchCalendars sample_client (Suc 0)
               = (Inr [work_calendar, home_calendar], Suc (Suc 0))"
    and fo: "\<And>opts. fetchCalendarObjects sample_client opts (Suc (Suc 0))
               = (Inr [], Suc (Suc (Suc 0)))"
    by (simp_all add: sample_client_def scripted_client_def)
  have f: "find (\<lambda>cal. url cal = ''https://dav.example/calendars/Work/'')
             [work_calendar, home_calendar] = Some work_calendar"
    by (simp add: work_calendar_def)
  have after: "''2025-12-31T00:00:00Z'' \<noteq> []" "''2025-01-01T00:00:00Z'' \<noteq> []"
    and same: "''2025-06-01T00:00:00Z'' \<noteq> []"
    by simp_all
  from time_range_forwarded_unvalidated [OF after l fc f fo, of url_list]
    time_range_forwarded_unvalidated [OF same same l fc f fo, of url_list]
  show ?thesis
    by (simp add: url_list_def)
qed

end
